theory Spec2Isabelle
  imports Complex_Main "HOL-Library.Word" "HOL-Library.Multiset"
begin

section \<open>JavaScript strings\<close>

text \<open>
  A JavaScript string is a sequence of UTF-16 code units; \<open>length\<close>, \<open>substring\<close>,
  \<open>startsWith\<close> and the regular expressions of the source (none has the \<open>u\<close> flag) all
  count code units. A string of the model is therefore a list of 16-bit words, and
  \<open>js\<close> turns an ASCII literal into one.
\<close>

type_synonym jchar = "16 word"
type_synonym jstring = "jchar list"

definition js :: "string \<Rightarrow> jstring" where
  "js s = map of_char s"

section \<open>The persisted application store (store/appStore.ts)\<close>

datatype ds_type = Csv | Excel | Json | Database | Api

datatype ds_status = Connected | Disconnected | DsError

record DataSource =
  ds_id :: jstring
  ds_name :: jstring
  ds_type :: ds_type
  connectedAt :: int
  ds_status :: ds_status

text \<open>The argument of \<open>addDataSource\<close>: \<open>Omit<DataSource, 'id' | 'connectedAt'>\<close>.\<close>

record NewSource =
  src_name :: jstring
  src_type :: ds_type
  src_status :: ds_status

datatype artifact_type = Chart | Table | Kpi | Model

text \<open>The payload \<open>data: unknown\<close> is opaque to the store; it is kept as its serialisation.\<close>

record QueryArtifact =
  art_type :: artifact_type
  art_data :: jstring
  art_title :: "jstring option"

record Query =
  q_id :: jstring
  q_number :: int
  q_prompt :: jstring
  q_code :: jstring
  q_output :: jstring
  q_artifacts :: "QueryArtifact list"
  createdAt :: int
  updatedAt :: int

text \<open>\<open>Partial<Query>\<close>: every field may be absent.\<close>

record QueryUpdates =
  u_id :: "jstring option"
  u_number :: "int option"
  u_prompt :: "jstring option"
  u_code :: "jstring option"
  u_output :: "jstring option"
  u_artifacts :: "QueryArtifact list option"
  u_createdAt :: "int option"
  u_updatedAt :: "int option"

datatype role = User | Assistant

record AIMessage =
  m_id :: jstring
  m_role :: role
  m_content :: jstring
  m_code :: "jstring option"
  m_suggestions :: "jstring list option"
  m_timestamp :: int

record AppState =
  dataSources :: "DataSource list"
  isConnected :: bool
  queries :: "Query list"
  activeQueryId :: "jstring option"
  aiMessages :: "AIMessage list"
  isSidebarCollapsed :: bool
  isAIPanelCollapsed :: bool
  aiScrollPosition :: real
  activeArtifact :: "QueryArtifact option"
  activeArtifactCode :: "jstring option"

text \<open>
  \<open>crypto.randomUUID()\<close> and \<open>new Date()\<close> are reads of the environment: every mutation
  that performs them takes the values read as arguments (\<open>uuid\<close>, \<open>now\<close>).
\<close>

definition addDataSource :: "NewSource \<Rightarrow> jstring \<Rightarrow> int \<Rightarrow> AppState \<Rightarrow> AppState" where
  "addDataSource source uuid now s =
     (let newSource = \<lparr>ds_id = uuid, ds_name = src_name source, ds_type = src_type source,
                        connectedAt = now, ds_status = src_status source\<rparr>
      in s\<lparr>dataSources := dataSources s @ [newSource], isConnected := True\<rparr>)"

definition removeDataSource :: "jstring \<Rightarrow> AppState \<Rightarrow> AppState" where
  "removeDataSource i s =
     (let newSources = filter (\<lambda>d. ds_id d \<noteq> i) (dataSources s)
      in s\<lparr>dataSources := newSources, isConnected := (length newSources > 0)\<rparr>)"

text \<open>\<open>addQuery\<close> reads the clock twice (\<open>createdAt\<close>, \<open>updatedAt\<close>) and returns the new query.\<close>

definition addQuery ::
  "jstring \<Rightarrow> jstring \<Rightarrow> jstring \<Rightarrow> int \<Rightarrow> int \<Rightarrow> AppState \<Rightarrow> Query \<times> AppState" where
  "addQuery prompt code uuid now1 now2 s =
     (let newQuery = \<lparr>q_id = uuid, q_number = int (length (queries s)) + 1, q_prompt = prompt,
                       q_code = code, q_output = [], q_artifacts = [],
                       createdAt = now1, updatedAt = now2\<rparr>
      in (newQuery, s\<lparr>queries := queries s @ [newQuery], activeQueryId := Some (q_id newQuery)\<rparr>))"

definition mergeQuery :: "Query \<Rightarrow> QueryUpdates \<Rightarrow> int \<Rightarrow> Query" where
  "mergeQuery q u now =
     \<lparr>q_id = (case u_id u of Some v \<Rightarrow> v | None \<Rightarrow> q_id q),
      q_number = (case u_number u of Some v \<Rightarrow> v | None \<Rightarrow> q_number q),
      q_prompt = (case u_prompt u of Some v \<Rightarrow> v | None \<Rightarrow> q_prompt q),
      q_code = (case u_code u of Some v \<Rightarrow> v | None \<Rightarrow> q_code q),
      q_output = (case u_output u of Some v \<Rightarrow> v | None \<Rightarrow> q_output q),
      q_artifacts = (case u_artifacts u of Some v \<Rightarrow> v | None \<Rightarrow> q_artifacts q),
      createdAt = (case u_createdAt u of Some v \<Rightarrow> v | None \<Rightarrow> createdAt q),
      updatedAt = now\<rparr>"

definition updateQuery :: "jstring \<Rightarrow> QueryUpdates \<Rightarrow> int \<Rightarrow> AppState \<Rightarrow> AppState" where
  "updateQuery i updates now s =
     s\<lparr>queries := map (\<lambda>q. if q_id q = i then mergeQuery q updates now else q) (queries s)\<rparr>"

definition removeQuery :: "jstring \<Rightarrow> AppState \<Rightarrow> AppState" where
  "removeQuery i s =
     s\<lparr>queries := filter (\<lambda>q. q_id q \<noteq> i) (queries s),
       activeQueryId := (if activeQueryId s = Some i then None else activeQueryId s)\<rparr>"

definition setActiveQuery :: "jstring option \<Rightarrow> AppState \<Rightarrow> AppState" where
  "setActiveQuery i s = s\<lparr>activeQueryId := i\<rparr>"

text \<open>\<open>queries.find(q => q.id === activeQueryId) || null\<close>; no string equals \<open>null\<close>.\<close>

definition getActiveQuery :: "AppState \<Rightarrow> Query option" where
  "getActiveQuery s =
     (case activeQueryId s of
        None \<Rightarrow> None
      | Some a \<Rightarrow> find (\<lambda>q. q_id q = a) (queries s))"

definition addAIMessage ::
  "role \<Rightarrow> jstring \<Rightarrow> jstring option \<Rightarrow> jstring list option \<Rightarrow> jstring \<Rightarrow> int \<Rightarrow> AppState \<Rightarrow> AppState"
  where
  "addAIMessage r c code sugg uuid now s =
     (let newMessage = \<lparr>m_id = uuid, m_role = r, m_content = c, m_code = code,
                         m_suggestions = sugg, m_timestamp = now\<rparr>
      in s\<lparr>aiMessages := aiMessages s @ [newMessage]\<rparr>)"

definition clearAIMessages :: "AppState \<Rightarrow> AppState" where
  "clearAIMessages s = s\<lparr>aiMessages := []\<rparr>"

definition toggleSidebar :: "AppState \<Rightarrow> AppState" where
  "toggleSidebar s = s\<lparr>isSidebarCollapsed := \<not> isSidebarCollapsed s\<rparr>"

definition toggleAIPanel :: "AppState \<Rightarrow> AppState" where
  "toggleAIPanel s = s\<lparr>isAIPanelCollapsed := \<not> isAIPanelCollapsed s\<rparr>"

definition setAIScrollPosition :: "real \<Rightarrow> AppState \<Rightarrow> AppState" where
  "setAIScrollPosition position s = s\<lparr>aiScrollPosition := position\<rparr>"

text \<open>\<open>activeArtifactCode: code || null\<close>: an absent or empty code becomes \<open>null\<close>.\<close>

definition setActiveArtifact :: "QueryArtifact option \<Rightarrow> jstring option \<Rightarrow> AppState \<Rightarrow> AppState" where
  "setActiveArtifact artifact code s =
     s\<lparr>activeArtifact := artifact,
       activeArtifactCode := (case code of None \<Rightarrow> None | Some c \<Rightarrow> if c = [] then None else Some c)\<rparr>"

text \<open>
  The invariant of the data model: there is no active query, or the active identifier is
  the \<open>id\<close> of a query the store holds.
\<close>

definition activeQueryValid :: "AppState \<Rightarrow> bool" where
  "activeQueryValid s =
     (case activeQueryId s of
        None \<Rightarrow> True
      | Some a \<Rightarrow> a \<in> set (map q_id (queries s)))"

text \<open>
  A caller issuing \<open>addQuery\<close> calls one after the other; each element of the list holds
  the arguments and the environment reads of one call. The queries returned are collected
  in call order.
\<close>

fun addQueries ::
  "(jstring \<times> jstring \<times> jstring \<times> int \<times> int) list \<Rightarrow> AppState \<Rightarrow> Query list \<times> AppState" where
  "addQueries [] s = ([], s)"
| "addQueries ((prompt, code, uuid, now1, now2) # rest) s =
     (let (q, s1) = addQuery prompt code uuid now1 now2 s;
          (qs, s2) = addQueries rest s1
      in (q # qs, s2))"

section \<open>The notebook execution controller (DatabricksNotebook)\<close>

datatype cell_status = Idle | Running | Success | CellError

datatype cell_type = Code | Markdown

record Cell =
  c_id :: jstring
  c_code :: jstring
  c_output :: "jstring option"
  c_status :: cell_status
  c_type :: cell_type

text \<open>\<open>ExecutionResult\<close> of the execution service: \<open>{status, output?, error?}\<close>.\<close>

record ExecutionResult =
  r_status :: jstring
  r_output :: "jstring option"
  r_error :: "jstring option"

text \<open>
  A call of \<open>databricksService.executeCode\<close> either returns a result or rejects (network
  failure, non-2xx status). The remote context keeps state between calls, so the outcome
  of a call may depend on the calls made before it: the service is a function of the
  earlier calls (cluster and code of each), the cluster and the code.
\<close>

datatype exec_outcome = Returned ExecutionResult | Rejected

type_synonym exec_service = "(jstring \<times> jstring) list \<Rightarrow> jstring \<Rightarrow> jstring \<Rightarrow> exec_outcome"

text \<open>
  The component state: the cell list, the selected cluster (\<open>undefined\<close> until one is
  chosen), the notifications raised by \<open>toast.error\<close>, and the log of the calls made to
  the execution service.
\<close>

record Notebook =
  cells :: "Cell list"
  clusterId :: "jstring option"
  toasts :: "jstring list"
  execLog :: "(jstring \<times> jstring) list"

text \<open>\<open>prev.map(c => c.id === id ? f(c) : c)\<close>, the update every handler uses.\<close>

definition updateById :: "jstring \<Rightarrow> (Cell \<Rightarrow> Cell) \<Rightarrow> Cell list \<Rightarrow> Cell list" where
  "updateById i f cs = map (\<lambda>c. if c_id c = i then f c else c) cs"

text \<open>\<open>result.error || result.output\<close>: an absent or empty error falls through to the output.\<close>

definition errorOrOutput :: "ExecutionResult \<Rightarrow> jstring option" where
  "errorOrOutput r =
     (case r_error r of
        Some e \<Rightarrow> if e \<noteq> [] then Some e else r_output r
      | None \<Rightarrow> r_output r)"

text \<open>The first statement of \<open>runAll\<close> after the cluster check, under "Reset all statuses first".\<close>

definition resetStatus :: "Cell \<Rightarrow> Cell" where
  "resetStatus c = c\<lparr>c_status := (if c_status c = Running then Running else Idle)\<rparr>"

text \<open>
  The \<open>for (const cell of cells)\<close> loop of \<open>runAll\<close>. It iterates over the cell list of
  the render in which \<open>runAll\<close> was invoked and updates the current state by cell id;
  \<open>break\<close> ends the recursion, \<open>continue\<close> goes on with the rest. No other handler runs
  between the steps of the loop in this model.
\<close>

fun runAllLoop :: "exec_service \<Rightarrow> jstring \<Rightarrow> Cell list \<Rightarrow> Notebook \<Rightarrow> Notebook" where
  "runAllLoop svc cid [] nb = nb"
| "runAllLoop svc cid (cell # rest) nb =
     (let nb1 = nb\<lparr>cells := updateById (c_id cell) (\<lambda>c. c\<lparr>c_status := Running\<rparr>) (cells nb)\<rparr>
      in if c_type cell = Markdown
         then runAllLoop svc cid rest
                (nb1\<lparr>cells := updateById (c_id cell) (\<lambda>c. c\<lparr>c_status := Success\<rparr>) (cells nb1)\<rparr>)
         else
           (let nb2 = nb1\<lparr>execLog := execLog nb1 @ [(cid, c_code cell)]\<rparr>
            in case svc (execLog nb1) cid (c_code cell) of
                 Returned result \<Rightarrow>
                   (let isError = (r_status result = js ''error'');
                        nb3 = nb2\<lparr>cells := updateById (c_id cell)
                                (\<lambda>c. c\<lparr>c_status := (if isError then CellError else Success),
                                       c_output := errorOrOutput result\<rparr>) (cells nb2)\<rparr>
                    in if isError
                       then nb3\<lparr>toasts := toasts nb3 @ [js ''Execution stopped at cell '' @ c_id cell]\<rparr>
                       else runAllLoop svc cid rest nb3)
               | Rejected \<Rightarrow>
                   nb2\<lparr>cells := updateById (c_id cell)
                     (\<lambda>c. c\<lparr>c_status := CellError,
                            c_output := Some (js ''System Error during Run All'')\<rparr>) (cells nb2)\<rparr>))"

text \<open>\<open>!clusterId\<close> holds for \<open>undefined\<close> and for the empty string.\<close>

definition runAll :: "exec_service \<Rightarrow> Notebook \<Rightarrow> Notebook" where
  "runAll svc nb =
     (case clusterId nb of
        None \<Rightarrow> nb\<lparr>toasts := toasts nb @ [js ''Please select a Databricks cluster first'']\<rparr>
      | Some cid \<Rightarrow>
          if cid = [] then nb\<lparr>toasts := toasts nb @ [js ''Please select a Databricks cluster first'']\<rparr>
          else runAllLoop svc cid (cells nb) (nb\<lparr>cells := map resetStatus (cells nb)\<rparr>))"

text \<open>
  \<open>onMoveUp\<close> and \<open>onMoveDown\<close> of the cell rendered at \<open>index\<close>: the destructuring
  assignment swaps two entries of a copy of the list. A handler exists only for a
  rendered index, \<open>index < cells.length\<close>; for any other index the list is returned as
  it is.
\<close>

definition onMoveUp :: "nat \<Rightarrow> Cell list \<Rightarrow> Cell list" where
  "onMoveUp index cs =
     (if index = 0 \<or> index \<ge> length cs then cs
      else cs[index := cs ! (index - 1), index - 1 := cs ! index])"

definition onMoveDown :: "nat \<Rightarrow> Cell list \<Rightarrow> Cell list" where
  "onMoveDown index cs =
     (if index + 1 = length cs \<or> index \<ge> length cs then cs
      else cs[index := cs ! (index + 1), index + 1 := cs ! index])"

text \<open>
  What it means for the cells of a list to run without stopping the loop, when they are
  executed in order after the calls of \<open>hist\<close>: every code cell returns a status other
  than \<open>error\<close>. \<open>callsOf\<close> lists the service calls these cells make.
\<close>

definition callsOf :: "jstring \<Rightarrow> Cell list \<Rightarrow> (jstring \<times> jstring) list" where
  "callsOf cid cs = map (\<lambda>c. (cid, c_code c)) (filter (\<lambda>c. c_type c = Code) cs)"

fun runsClean :: "exec_service \<Rightarrow> jstring \<Rightarrow> (jstring \<times> jstring) list \<Rightarrow> Cell list \<Rightarrow> bool" where
  "runsClean svc cid hist [] = True"
| "runsClean svc cid hist (c # cs) =
     (if c_type c = Markdown then runsClean svc cid hist cs
      else (case svc hist cid (c_code c) of
              Returned r \<Rightarrow> r_status r \<noteq> js ''error'' \<and> runsClean svc cid (hist @ [(cid, c_code c)]) cs
            | Rejected \<Rightarrow> False))"

definition failing :: "exec_outcome \<Rightarrow> bool" where
  "failing oc = (case oc of Returned r \<Rightarrow> r_status r = js ''error'' | Rejected \<Rightarrow> True)"

section \<open>String operations of the JavaScript library\<close>

definition nl :: jchar where
  "nl = 0x0A"

text \<open>
  White space as \<open>String.prototype.trim\<close> and the class \<open>\s\<close> know it: the ECMAScript
  WhiteSpace and LineTerminator code units.
\<close>

definition isSpace :: "jchar \<Rightarrow> bool" where
  "isSpace c =
     (c = 0x09 \<or> c = 0x0A \<or> c = 0x0B \<or> c = 0x0C \<or> c = 0x0D \<or> c = 0x20 \<or> c = 0xA0
      \<or> c = 0x1680 \<or> (0x2000 \<le> c \<and> c \<le> 0x200A) \<or> c = 0x2028 \<or> c = 0x2029
      \<or> c = 0x202F \<or> c = 0x205F \<or> c = 0x3000 \<or> c = 0xFEFF)"

text \<open>The class \<open>\w\<close>: \<open>[A-Za-z0-9_]\<close>.\<close>

definition isWord :: "jchar \<Rightarrow> bool" where
  "isWord c =
     ((0x41 \<le> c \<and> c \<le> 0x5A) \<or> (0x61 \<le> c \<and> c \<le> 0x7A) \<or> (0x30 \<le> c \<and> c \<le> 0x39) \<or> c = 0x5F)"

definition trim :: "jstring \<Rightarrow> jstring" where
  "trim s = rev (dropWhile isSpace (rev (dropWhile isSpace s)))"

definition startsWith :: "jstring \<Rightarrow> jstring \<Rightarrow> bool" where
  "startsWith s p = (take (length p) s = p)"

fun includesStr :: "jstring \<Rightarrow> jstring \<Rightarrow> bool" where
  "includesStr [] p = (p = [])"
| "includesStr (c # cs) p = (startsWith (c # cs) p \<or> includesStr cs p)"

text \<open>\<open>s.split(sep)\<close> for a separator of one code unit; the result is never empty.\<close>

fun split :: "jchar \<Rightarrow> jstring \<Rightarrow> jstring list" where
  "split sep [] = [[]]"
| "split sep (c # cs) =
     (if c = sep then [] # split sep cs
      else (case split sep cs of
              x # xs \<Rightarrow> (c # x) # xs
            | [] \<Rightarrow> [[c]]))"

text \<open>
  \<open>toLowerCase\<close> and the canonical form the flag \<open>i\<close> compares (\<open>toUpperCase\<close> of one
  code unit) are modelled on ASCII letters and leave every other code unit as it is. The
  source only compares their results with ASCII literals (\<open>'csv'\<close>, \<open>'json'\<close>, the two
  section markers): no code unit outside ASCII is lowered to a letter of \<open>csv\<close> or
  \<open>json\<close>, and the canonical form of a code unit outside ASCII is never an ASCII one, so
  these comparisons come out as in JavaScript.
\<close>

definition lowerChar :: "jchar \<Rightarrow> jchar" where
  "lowerChar c = (if 0x41 \<le> c \<and> c \<le> 0x5A then c + 0x20 else c)"

definition toLowerCase :: "jstring \<Rightarrow> jstring" where
  "toLowerCase s = map lowerChar s"

definition canonicalize :: "jchar \<Rightarrow> jchar" where
  "canonicalize c = (if 0x61 \<le> c \<and> c \<le> 0x7A then c - 0x20 else c)"

section \<open>The upload zone (UploadZone.uploadFilesToBackend)\<close>

text \<open>Of a \<open>File\<close> the component reads the name; the content goes to the file service.\<close>

record File =
  f_name :: jstring
  f_content :: jstring

text \<open>
  \<open>fileService.uploadFile\<close> returns or rejects; a rejection carries the message of the
  \<open>Error\<close> thrown, if it is one. Its outcome may depend on the uploads made before.
\<close>

datatype upload_outcome = Uploaded | UploadRejected "jstring option"

type_synonym upload_service = "File list \<Rightarrow> File \<Rightarrow> upload_outcome"

record UploadZone =
  zoneStore :: AppState
  isUploading :: bool
  uploadError :: "jstring option"
  uploadLog :: "File list"

definition fileType :: "File \<Rightarrow> ds_type" where
  "fileType file =
     (let extension = toLowerCase (last (split 0x2E (f_name file)))
      in if extension = js ''csv'' then Csv else if extension = js ''json'' then Json else Excel)"

text \<open>
  The \<open>for (const file of files)\<close> loop. \<open>uuids\<close> and \<open>clock\<close> give the values that
  \<open>crypto.randomUUID()\<close> and \<open>new Date()\<close> return to \<open>addDataSource\<close>, indexed by the
  number of uploads attempted before.
\<close>

fun uploadLoop ::
  "upload_service \<Rightarrow> (nat \<Rightarrow> jstring) \<Rightarrow> (nat \<Rightarrow> int) \<Rightarrow> File list \<Rightarrow> UploadZone \<Rightarrow> UploadZone" where
  "uploadLoop svc uuids clock [] z = z"
| "uploadLoop svc uuids clock (file # rest) z =
     (let n = length (uploadLog z);
          z1 = z\<lparr>uploadLog := uploadLog z @ [file]\<rparr>
      in case svc (uploadLog z) file of
           Uploaded \<Rightarrow>
             uploadLoop svc uuids clock rest
               (z1\<lparr>zoneStore := addDataSource
                      \<lparr>src_name = f_name file, src_type = fileType file, src_status = Connected\<rparr>
                      (uuids n) (clock n) (zoneStore z1)\<rparr>)
         | UploadRejected msg \<Rightarrow>
             uploadLoop svc uuids clock rest
               (z1\<lparr>uploadError := Some (js ''Failed to upload '' @ f_name file @ js '': '' @
                        (case msg of Some m \<Rightarrow> m | None \<Rightarrow> js ''Unknown error'')),
                    zoneStore := addDataSource
                      \<lparr>src_name = f_name file, src_type = fileType file, src_status = DsError\<rparr>
                      (uuids n) (clock n) (zoneStore z1)\<rparr>))"

definition uploadFilesToBackend ::
  "upload_service \<Rightarrow> (nat \<Rightarrow> jstring) \<Rightarrow> (nat \<Rightarrow> int) \<Rightarrow> File list \<Rightarrow> UploadZone \<Rightarrow> UploadZone" where
  "uploadFilesToBackend svc uuids clock files z =
     (uploadLoop svc uuids clock files (z\<lparr>isUploading := True, uploadError := None\<rparr>))
       \<lparr>isUploading := False\<rparr>"

text \<open>The status the entry of a file gets, by the outcome of its upload.\<close>

definition statusOf :: "upload_outcome \<Rightarrow> ds_status" where
  "statusOf oc = (case oc of Uploaded \<Rightarrow> Connected | UploadRejected m \<Rightarrow> DsError)"

section \<open>The chat response parser (AIAssistant.handleSend, lines 85 to 113)\<close>

definition fence :: jstring where
  "fence = [0x60, 0x60, 0x60]"

text \<open>
  The regular expression \<open>/```(?:\w+)?\n?([\s\S]*?)```/\<close>, matched at the head of a string
  in the order a backtracking matcher tries things. Each function returns the text of
  group 1 and the text left after the match, or \<open>None\<close> when the match fails.

  \<open>lazyBody\<close> is \<open>([\s\S]*?)```\<close>: the shortest body followed by a fence.
\<close>

fun lazyBody :: "jstring \<Rightarrow> (jstring \<times> jstring) option" where
  "lazyBody [] = None"
| "lazyBody (c # cs) =
     (if startsWith (c # cs) fence then Some ([], drop 3 (c # cs))
      else (case lazyBody cs of
              Some (body, rest) \<Rightarrow> Some (c # body, rest)
            | None \<Rightarrow> None))"

text \<open>\<open>\n?\<close> is greedy: the line feed is consumed first, and given back if the rest fails.\<close>

definition optNewline :: "jstring \<Rightarrow> (jstring \<times> jstring) option" where
  "optNewline s =
     (case s of
        c # cs \<Rightarrow>
          if c = nl
          then (case lazyBody cs of Some m \<Rightarrow> Some m | None \<Rightarrow> lazyBody s)
          else lazyBody s
      | [] \<Rightarrow> lazyBody s)"

text \<open>
  \<open>(?:\w+)?\<close> is greedy: \<open>optWord k s\<close> tries a language tag of \<open>k\<close> word characters,
  then shorter ones, and at last no tag.
\<close>

fun optWord :: "nat \<Rightarrow> jstring \<Rightarrow> (jstring \<times> jstring) option" where
  "optWord 0 s = optNewline s"
| "optWord (Suc k) s =
     (case optNewline (drop (Suc k) s) of
        Some m \<Rightarrow> Some m
      | None \<Rightarrow> optWord k s)"

definition fenceAt :: "jstring \<Rightarrow> (jstring \<times> jstring) option" where
  "fenceAt s =
     (if startsWith s fence
      then optWord (length (takeWhile isWord (drop 3 s))) (drop 3 s)
      else None)"

text \<open>\<open>fullResponse.match(...)\<close>: group 1 of the leftmost match.\<close>

fun fenceMatch :: "jstring \<Rightarrow> jstring option" where
  "fenceMatch [] = None"
| "fenceMatch (c # cs) =
     (case fenceAt (c # cs) of
        Some (body, rest) \<Rightarrow> Some body
      | None \<Rightarrow> fenceMatch cs)"

lemma lazyBody_shorter: "lazyBody s = Some (b, r) \<Longrightarrow> length r \<le> length s"
  by (induction s arbitrary: b) (auto split: if_splits option.splits)

lemma optNewline_shorter: "optNewline s = Some (b, r) \<Longrightarrow> length r \<le> length s"
  by (auto simp: optNewline_def split: list.splits if_splits option.splits dest!: lazyBody_shorter)

lemma optWord_shorter: "optWord k s = Some (b, r) \<Longrightarrow> length r \<le> length s"
  by (induction k) (auto split: option.splits dest!: optNewline_shorter)

lemma fenceAt_shorter: "fenceAt s = Some (b, r) \<Longrightarrow> length r < length s"
  by (cases s) (auto simp: fenceAt_def startsWith_def fence_def split: if_splits dest!: optWord_shorter)

text \<open>
  \<open>fullResponse.replace(/.../g, '')\<close>: every match is removed, and the search goes on
  after the end of the match. A match is never empty, so the text left gets shorter.
\<close>

function stripFences :: "jstring \<Rightarrow> jstring" where
  "stripFences [] = []"
| "stripFences (c # cs) =
     (case fenceAt (c # cs) of
        Some (body, rest) \<Rightarrow> stripFences rest
      | None \<Rightarrow> c # stripFences cs)"
  by pat_completeness auto
termination
  by (relation "measure length") (auto dest: fenceAt_shorter)

text \<open>
  The regular expression \<open>/(?:^|\n)(?:Suggestions|Suggested Next Steps):([\s\S]*)$/i\<close>.
  Without the flag \<open>m\<close>, \<open>^\<close> matches at the start of the text only and \<open>$\<close> at its
  end only, so group 1 runs to the end of the text. \<open>afterMarker\<close> matches what follows
  \<open>(?:^|\n)\<close> and returns group 1; \<open>suggestionSearch i\<close> tries the positions from \<open>i\<close>
  on, and returns the index of the match with group 1.
\<close>

definition ciStartsWith :: "jstring \<Rightarrow> jstring \<Rightarrow> bool" where
  "ciStartsWith s lit = (map canonicalize (take (length lit) s) = map canonicalize lit)"

definition afterMarker :: "jstring \<Rightarrow> jstring option" where
  "afterMarker s =
     (if ciStartsWith s (js ''Suggestions'') \<and> startsWith (drop 11 s) [0x3A] then Some (drop 12 s)
      else if ciStartsWith s (js ''Suggested Next Steps'') \<and> startsWith (drop 20 s) [0x3A]
           then Some (drop 21 s)
      else None)"

fun suggestionSearch :: "nat \<Rightarrow> jstring \<Rightarrow> (nat \<times> jstring) option" where
  "suggestionSearch i [] = (if i = 0 then map_option (Pair i) (afterMarker []) else None)"
| "suggestionSearch i (c # cs) =
     (case (if i = 0 then afterMarker (c # cs) else None) of
        Some body \<Rightarrow> Some (i, body)
      | None \<Rightarrow>
          (case (if c = nl then afterMarker cs else None) of
             Some body \<Rightarrow> Some (i, body)
           | None \<Rightarrow> suggestionSearch (Suc i) cs))"

definition suggestionMatch :: "jstring \<Rightarrow> (nat \<times> jstring) option" where
  "suggestionMatch s = suggestionSearch 0 s"

text \<open>
  The second literal of the filter in line 106. The source file holds the bytes
  \<open>C3 A2 E2 82 AC C2 A2\<close> between the quotes, which are the three code units U+00E2,
  U+20AC, U+00A2; the bullet character is the single code unit U+2022.
\<close>

definition bulletLiteral :: jstring where
  "bulletLiteral = [0xE2, 0x20AC, 0xA2]"

definition bulletChar :: jchar where
  "bulletChar = 0x2022"

text \<open>What \<open>handleSend\<close> passes to \<open>addAIMessage\<close> for the assistant's reply.\<close>

record ParsedResponse =
  p_content :: jstring
  p_code :: "jstring option"
  p_suggestions :: "jstring list option"

text \<open>
  Lines 89 to 97. \<open>if (code)\<close> holds for a non-empty string only: the fenced blocks are
  removed, and the text trimmed, when a non-empty code was extracted.
\<close>

definition extractCode :: "jstring \<Rightarrow> jstring option \<times> jstring" where
  "extractCode response =
     (if includesStr response fence
      then (let code = map_option trim (fenceMatch response)
            in case code of
                 Some c \<Rightarrow> if c \<noteq> [] then (code, trim (stripFences response)) else (code, response)
               | None \<Rightarrow> (code, response))
      else (None, response))"

text \<open>Lines 99 to 111.\<close>

definition extractSuggestions :: "jstring \<Rightarrow> jstring list \<times> jstring" where
  "extractSuggestions fullResponse =
     (case suggestionMatch fullResponse of
        Some (index, suggestionText) \<Rightarrow>
          (map (\<lambda>line. trim (drop 1 line))
             (filter (\<lambda>line. startsWith line [0x2D] \<or> startsWith line bulletLiteral)
                (map trim (split nl suggestionText))),
           trim (take index fullResponse))
      | None \<Rightarrow> ([], fullResponse))"

definition parseResponse :: "jstring \<Rightarrow> ParsedResponse" where
  "parseResponse response =
     (let (code, fullResponse1) = extractCode response;
          (suggestions, fullResponse2) = extractSuggestions fullResponse1
      in \<lparr>p_content = fullResponse2, p_code = code,
          p_suggestions = (if length suggestions > 0 then Some suggestions else None)\<rparr>)"

text \<open>
  The wording of the specification, for comparison with \<open>suggestionMatch\<close>: the text has
  a line beginning a "Suggestions:" or "Suggested Next Steps:" section, in any case of
  the letters. A line begins at the start of the text and after every line feed.
\<close>

definition hasSuggestionSection :: "jstring \<Rightarrow> bool" where
  "hasSuggestionSection t =
     (\<exists>i\<in>{0..length t}. (i = 0 \<or> t ! (i - 1) = nl) \<and>
        (ciStartsWith (drop i t) (js ''Suggestions:'')
         \<or> ciStartsWith (drop i t) (js ''Suggested Next Steps:'')))"

section \<open>The chat panel (AIAssistant): scrolling and sending\<close>

text \<open>
  The state of the panel: the store, the component state (\<open>input\<close>, \<open>isTyping\<close>,
  \<open>shouldAutoScroll\<close>) and the geometry of the transcript container as the browser
  reports it. \<open>scrollTop\<close> may be fractional; the two heights are integers.
\<close>

record ChatPanel =
  panelStore :: AppState
  input :: jstring
  isTyping :: bool
  shouldAutoScroll :: bool
  scrollTop :: real
  scrollHeight :: int
  clientHeight :: int

definition handleScroll :: "ChatPanel \<Rightarrow> ChatPanel" where
  "handleScroll p =
     (let isNearBottom = (scrollHeight p - \<lceil>scrollTop p\<rceil> - clientHeight p < 250)
      in p\<lparr>panelStore := setAIScrollPosition (scrollTop p) (panelStore p),
           shouldAutoScroll := isNearBottom\<rparr>)"

text \<open>
  The browser's part of \<open>messagesEndRef.current?.scrollIntoView(...)\<close>: the end marker is
  the last element of the container, so bringing it into view moves the container to its
  largest offset. The animation of \<open>behavior: 'smooth'\<close> is not modelled, only where it
  ends.
\<close>

definition scrollIntoViewEnd :: "ChatPanel \<Rightarrow> ChatPanel" where
  "scrollIntoViewEnd p = p\<lparr>scrollTop := real_of_int (max 0 (scrollHeight p - clientHeight p))\<rparr>"

text \<open>The effect on \<open>[aiMessages, shouldAutoScroll]\<close>, lines 27 to 31.\<close>

definition messagesEffect :: "ChatPanel \<Rightarrow> ChatPanel" where
  "messagesEffect p = (if shouldAutoScroll p then scrollIntoViewEnd p else p)"

text \<open>
  \<open>handleSend\<close> up to its first \<open>await\<close> (lines 64 to 76), followed by the render of the
  new message: the container grows by the height \<open>h\<close> of the rendered message and the
  effect runs. \<open>text || input\<close> takes \<open>input\<close> for an absent or empty \<open>text\<close>.
\<close>

definition handleSendBegin :: "jstring option \<Rightarrow> jstring \<Rightarrow> int \<Rightarrow> int \<Rightarrow> ChatPanel \<Rightarrow> ChatPanel" where
  "handleSendBegin text uuid now h p =
     (let userInput = (case text of Some t \<Rightarrow> if t \<noteq> [] then t else input p | None \<Rightarrow> input p)
      in if trim userInput = [] then p
         else messagesEffect
                (p\<lparr>panelStore := addAIMessage User userInput None None uuid now (panelStore p),
                   input := [], isTyping := True, shouldAutoScroll := True,
                   scrollHeight := scrollHeight p + h\<rparr>))"

definition backendErrorText :: jstring where
  "backendErrorText =
     js ''I encountered an issue connecting to the backend. Please make sure the server is running at http://localhost:8000.''"

text \<open>
  \<open>handleSend\<close> after \<open>chatService.sendMessage\<close> has settled (lines 85 to 124): \<open>reply\<close> is
  the response text, or \<open>None\<close> when the call was rejected. The assistant's message is
  added, rendered with height \<open>h\<close>, and the effect runs.
\<close>

definition handleSendEnd :: "jstring option \<Rightarrow> jstring \<Rightarrow> int \<Rightarrow> int \<Rightarrow> ChatPanel \<Rightarrow> ChatPanel" where
  "handleSendEnd reply uuid now h p =
     (let store' = (case reply of
                      Some response \<Rightarrow>
                        (let parsed = parseResponse response
                         in addAIMessage Assistant (p_content parsed) (p_code parsed)
                              (p_suggestions parsed) uuid now (panelStore p))
                    | None \<Rightarrow> addAIMessage Assistant backendErrorText None None uuid now (panelStore p))
      in (messagesEffect (p\<lparr>panelStore := store', scrollHeight := scrollHeight p + h\<rparr>))
           \<lparr>isTyping := False\<rparr>)"

section \<open>Evaluating string literals\<close>

lemma js_simps: "js [] = []" "js (c # cs) = of_char c # js cs"
  by (simp_all add: js_def)

section \<open>Properties of the store\<close>

lemma addQueries_numbers:
  "addQueries args s = (qs, s') \<Longrightarrow>
     map q_number qs = map int [length (queries s) + 1 ..< length (queries s) + 1 + length args]
   \<and> queries s' = queries s @ qs"
proof (induction args arbitrary: s qs s')
  case Nil
  then show ?case by simp
next
  case (Cons a rest)
  obtain prompt code uuid now1 now2 where a: "a = (prompt, code, uuid, now1, now2)"
    by (cases a) auto
  obtain q s1 where q: "addQuery prompt code uuid now1 now2 s = (q, s1)"
    by (cases "addQuery prompt code uuid now1 now2 s") auto
  obtain qs2 s2 where r: "addQueries rest s1 = (qs2, s2)"
    by (cases "addQueries rest s1") auto
  from Cons.prems a q r have qs: "qs = q # qs2" and s': "s' = s2" by auto
  from q have qn: "q_number q = int (length (queries s)) + 1" and s1: "queries s1 = queries s @ [q]"
    by (auto simp: addQuery_def Let_def)
  from Cons.IH[OF r]
  have ih: "map q_number qs2
      = map int [length (queries s1) + 1 ..< length (queries s1) + 1 + length rest]"
    and ih2: "queries s2 = queries s1 @ qs2" by auto
  have "[length (queries s) + 1 ..< length (queries s) + 1 + length (a # rest)]
        = (length (queries s) + 1)
            # [length (queries s1) + 1 ..< length (queries s1) + 1 + length rest]"
    using s1 by (subst upt_rec) simp
  then show ?case using qs s' qn ih ih2 s1 by simp
qed

lemma activeQueryValid_iff:
  "activeQueryValid s \<longleftrightarrow> (\<forall>a. activeQueryId s = Some a \<longrightarrow> a \<in> set (map q_id (queries s)))"
  by (simp add: activeQueryValid_def split: option.splits)

text \<open>
  Claim C6. Every \<open>addQuery(prompt, code)\<close> creates a query whose number is the current
  query count plus one, with empty output and no artifacts, appends it, makes it the
  active query and returns it. Hence a sequence of N calls, starting from a store that
  holds no queries, assigns the numbers 1..N in creation order.
\<close>

theorem addQuery_numbering:
  "(case addQuery prompt code uuid now1 now2 s of (q, s') \<Rightarrow>
      q_number q = int (length (queries s)) + 1 \<and> q_output q = [] \<and> q_artifacts q = []
      \<and> q_prompt q = prompt \<and> q_code q = code
      \<and> queries s' = queries s @ [q] \<and> activeQueryId s' = Some (q_id q))
   \<and> (queries s0 = [] \<longrightarrow>
        (case addQueries args s0 of (qs, s') \<Rightarrow>
           map q_number qs = map int [1 ..< length args + 1] \<and> queries s' = qs))"
proof -
  have a: "(case addQuery prompt code uuid now1 now2 s of (q, s') \<Rightarrow>
      q_number q = int (length (queries s)) + 1 \<and> q_output q = [] \<and> q_artifacts q = []
      \<and> q_prompt q = prompt \<and> q_code q = code
      \<and> queries s' = queries s @ [q] \<and> activeQueryId s' = Some (q_id q))"
    by (simp add: addQuery_def Let_def)
  have b: "queries s0 = [] \<longrightarrow>
        (case addQueries args s0 of (qs, s') \<Rightarrow>
           map q_number qs = map int [1 ..< length args + 1] \<and> queries s' = qs)"
  proof
    assume e: "queries s0 = []"
    obtain qs s' where r: "addQueries args s0 = (qs, s')" by (cases "addQueries args s0") auto
    from addQueries_numbers[OF r] e r
    show "(case addQueries args s0 of (qs, s') \<Rightarrow>
           map q_number qs = map int [1 ..< length args + 1] \<and> queries s' = qs)" by simp
  qed
  from a b show ?thesis by blast
qed

text \<open>Three calls on a store without queries: the numbers are 1, 2, 3.\<close>

theorem addQuery_numbering_witness:
  "map q_number (fst (addQueries [(js ''p1'', js ''c1'', js ''u1'', 10, 10), (js ''p2'', js ''c2'', js ''u2'', 20, 21), (js ''p3'', js ''c3'', js ''u3'', 30, 30)]
      \<lparr>dataSources = [], isConnected = False, queries = [], activeQueryId = None, aiMessages = [], isSidebarCollapsed = False, isAIPanelCollapsed = False, aiScrollPosition = 0, activeArtifact = None, activeArtifactCode = None\<rparr>)) = [1, 2, 3]
   \<and> map q_id (queries (snd (addQueries [(js ''p1'', js ''c1'', js ''u1'', 10, 10), (js ''p2'', js ''c2'', js ''u2'', 20, 21), (js ''p3'', js ''c3'', js ''u3'', 30, 30)]
      \<lparr>dataSources = [], isConnected = False, queries = [], activeQueryId = None, aiMessages = [], isSidebarCollapsed = False, isAIPanelCollapsed = False, aiScrollPosition = 0, activeArtifact = None, activeArtifactCode = None\<rparr>))) = [js ''u1'', js ''u2'', js ''u3'']"
proof -
  have e: "queries \<lparr>dataSources = [], isConnected = False, queries = [], activeQueryId = None, aiMessages = [], isSidebarCollapsed = False, isAIPanelCollapsed = False, aiScrollPosition = 0, activeArtifact = None, activeArtifactCode = None\<rparr> = []" by simp
  show ?thesis
    using e addQuery_numbering[where ?s0.0 = "\<lparr>dataSources = [], isConnected = False, queries = [], activeQueryId = None, aiMessages = [], isSidebarCollapsed = False, isAIPanelCollapsed = False, aiScrollPosition = 0, activeArtifact = None, activeArtifactCode = None\<rparr>" and args = "[(js ''p1'', js ''c1'', js ''u1'', 10, 10), (js ''p2'', js ''c2'', js ''u2'', 20, 21), (js ''p3'', js ''c3'', js ''u3'', 30, 30)]"]
    by (simp add: addQuery_def Let_def upt_rec)
qed

text \<open>
  Claim C7. After \<open>removeQuery(id)\<close>: if \<open>id\<close> was the active query, \<open>getActiveQuery()\<close>
  returns none; if it was not, the active identifier is unchanged; in both cases the
  queries with that identifier are gone from the list and the others stay in order.
\<close>

theorem removeQuery_active:
  "(activeQueryId s = Some i \<longrightarrow> getActiveQuery (removeQuery i s) = None)
   \<and> (activeQueryId s \<noteq> Some i \<longrightarrow> activeQueryId (removeQuery i s) = activeQueryId s)
   \<and> queries (removeQuery i s) = filter (\<lambda>q. q_id q \<noteq> i) (queries s)
   \<and> i \<notin> set (map q_id (queries (removeQuery i s)))"
  by (auto simp: removeQuery_def getActiveQuery_def)

theorem removeQuery_active_witness:
  "getActiveQuery (removeQuery (js ''q1'') \<lparr>dataSources = [], isConnected = False, queries = [\<lparr>q_id = js ''q1'', q_number = 1, q_prompt = js ''p'', q_code = js ''c'', q_output = [], q_artifacts = [], createdAt = 0, updatedAt = 0\<rparr>, \<lparr>q_id = js ''q2'', q_number = 2, q_prompt = js ''p'', q_code = js ''c'', q_output = [], q_artifacts = [], createdAt = 0, updatedAt = 0\<rparr>], activeQueryId = Some (js ''q1''), aiMessages = [], isSidebarCollapsed = False, isAIPanelCollapsed = False, aiScrollPosition = 0, activeArtifact = None, activeArtifactCode = None\<rparr>) = None
   \<and> activeQueryId (removeQuery (js ''q2'') \<lparr>dataSources = [], isConnected = False, queries = [\<lparr>q_id = js ''q1'', q_number = 1, q_prompt = js ''p'', q_code = js ''c'', q_output = [], q_artifacts = [], createdAt = 0, updatedAt = 0\<rparr>, \<lparr>q_id = js ''q2'', q_number = 2, q_prompt = js ''p'', q_code = js ''c'', q_output = [], q_artifacts = [], createdAt = 0, updatedAt = 0\<rparr>], activeQueryId = Some (js ''q1''), aiMessages = [], isSidebarCollapsed = False, isAIPanelCollapsed = False, aiScrollPosition = 0, activeArtifact = None, activeArtifactCode = None\<rparr>) = Some (js ''q1'')
   \<and> map q_id (queries (removeQuery (js ''q1'') \<lparr>dataSources = [], isConnected = False, queries = [\<lparr>q_id = js ''q1'', q_number = 1, q_prompt = js ''p'', q_code = js ''c'', q_output = [], q_artifacts = [], createdAt = 0, updatedAt = 0\<rparr>, \<lparr>q_id = js ''q2'', q_number = 2, q_prompt = js ''p'', q_code = js ''c'', q_output = [], q_artifacts = [], createdAt = 0, updatedAt = 0\<rparr>], activeQueryId = Some (js ''q1''), aiMessages = [], isSidebarCollapsed = False, isAIPanelCollapsed = False, aiScrollPosition = 0, activeArtifact = None, activeArtifactCode = None\<rparr>)) = [js ''q2'']"
  using removeQuery_active[of "\<lparr>dataSources = [], isConnected = False, queries = [\<lparr>q_id = js ''q1'', q_number = 1, q_prompt = js ''p'', q_code = js ''c'', q_output = [], q_artifacts = [], createdAt = 0, updatedAt = 0\<rparr>, \<lparr>q_id = js ''q2'', q_number = 2, q_prompt = js ''p'', q_code = js ''c'', q_output = [], q_artifacts = [], createdAt = 0, updatedAt = 0\<rparr>], activeQueryId = Some (js ''q1''), aiMessages = [], isSidebarCollapsed = False, isAIPanelCollapsed = False, aiScrollPosition = 0, activeArtifact = None, activeArtifactCode = None\<rparr>" "js ''q1''"]
        removeQuery_active[of "\<lparr>dataSources = [], isConnected = False, queries = [\<lparr>q_id = js ''q1'', q_number = 1, q_prompt = js ''p'', q_code = js ''c'', q_output = [], q_artifacts = [], createdAt = 0, updatedAt = 0\<rparr>, \<lparr>q_id = js ''q2'', q_number = 2, q_prompt = js ''p'', q_code = js ''c'', q_output = [], q_artifacts = [], createdAt = 0, updatedAt = 0\<rparr>], activeQueryId = Some (js ''q1''), aiMessages = [], isSidebarCollapsed = False, isAIPanelCollapsed = False, aiScrollPosition = 0, activeArtifact = None, activeArtifactCode = None\<rparr>" "js ''q2''"]
  by (simp add: js_simps)

text \<open>
  Claim C2, as amended. The store keeps the active identifier valid (none, or the \<open>id\<close>
  of a query it holds) under \<open>removeQuery\<close> for every argument, under \<open>addQuery\<close>, under
  \<open>updateQuery\<close> when the update carries no \<open>id\<close>, and under the mutations that touch
  neither the queries nor the active identifier. \<open>setActiveQuery(id)\<close> stores its argument
  unchecked: after it the identifier is valid exactly when \<open>id\<close> is none or the \<open>id\<close> of
  a query the store holds.
\<close>

theorem active_query_integrity:
  "(activeQueryValid s \<longrightarrow> activeQueryValid (removeQuery i s))
   \<and> activeQueryValid (snd (addQuery prompt code uuid now1 now2 s))
   \<and> (activeQueryValid (setActiveQuery x s)
        \<longleftrightarrow> (case x of None \<Rightarrow> True | Some a \<Rightarrow> a \<in> set (map q_id (queries s))))
   \<and> (activeQueryValid s \<and> u_id updates = None \<longrightarrow> activeQueryValid (updateQuery i updates now s))
   \<and> (activeQueryValid s \<longrightarrow>
         activeQueryValid (addDataSource source uuid now s)
       \<and> activeQueryValid (removeDataSource i s)
       \<and> activeQueryValid (addAIMessage r c mcode sugg uuid now s)
       \<and> activeQueryValid (clearAIMessages s)
       \<and> activeQueryValid (toggleSidebar s)
       \<and> activeQueryValid (toggleAIPanel s)
       \<and> activeQueryValid (setAIScrollPosition position s)
       \<and> activeQueryValid (setActiveArtifact artifact acode s))"
proof -
  have rm: "activeQueryValid s \<longrightarrow> activeQueryValid (removeQuery i s)"
    by (auto simp: activeQueryValid_def removeQuery_def split: option.splits)
  have ad: "activeQueryValid (snd (addQuery prompt code uuid now1 now2 s))"
    by (simp add: activeQueryValid_def addQuery_def Let_def)
  have st: "activeQueryValid (setActiveQuery x s)
        \<longleftrightarrow> (case x of None \<Rightarrow> True | Some a \<Rightarrow> a \<in> set (map q_id (queries s)))"
    by (simp add: activeQueryValid_def setActiveQuery_def split: option.splits)
  have ids: "u_id updates = None \<Longrightarrow>
      map q_id (map (\<lambda>q. if q_id q = i then mergeQuery q updates now else q) (queries s))
        = map q_id (queries s)"
    by (induction "queries s") (auto simp: mergeQuery_def)
  have up: "activeQueryValid s \<and> u_id updates = None
      \<longrightarrow> activeQueryValid (updateQuery i updates now s)"
    using ids by (auto simp: activeQueryValid_def updateQuery_def split: option.splits)
  have other: "activeQueryValid s \<longrightarrow>
         activeQueryValid (addDataSource source uuid now s)
       \<and> activeQueryValid (removeDataSource i s)
       \<and> activeQueryValid (addAIMessage r c mcode sugg uuid now s)
       \<and> activeQueryValid (clearAIMessages s)
       \<and> activeQueryValid (toggleSidebar s)
       \<and> activeQueryValid (toggleAIPanel s)
       \<and> activeQueryValid (setAIScrollPosition position s)
       \<and> activeQueryValid (setActiveArtifact artifact acode s)"
    by (simp add: activeQueryValid_iff addDataSource_def removeDataSource_def addAIMessage_def
          clearAIMessages_def toggleSidebar_def toggleAIPanel_def setAIScrollPosition_def
          setActiveArtifact_def Let_def)
  from rm ad st up other show ?thesis by blast
qed

theorem active_query_integrity_witness:
  "activeQueryValid (removeQuery (js ''q1'') \<lparr>dataSources = [], isConnected = False, queries = [\<lparr>q_id = js ''q1'', q_number = 1, q_prompt = js ''p'', q_code = js ''c'', q_output = [], q_artifacts = [], createdAt = 0, updatedAt = 0\<rparr>, \<lparr>q_id = js ''q2'', q_number = 2, q_prompt = js ''p'', q_code = js ''c'', q_output = [], q_artifacts = [], createdAt = 0, updatedAt = 0\<rparr>], activeQueryId = Some (js ''q1''), aiMessages = [], isSidebarCollapsed = False, isAIPanelCollapsed = False, aiScrollPosition = 0, activeArtifact = None, activeArtifactCode = None\<rparr>)
   \<and> activeQueryValid (setActiveQuery (Some (js ''q2'')) \<lparr>dataSources = [], isConnected = False, queries = [\<lparr>q_id = js ''q1'', q_number = 1, q_prompt = js ''p'', q_code = js ''c'', q_output = [], q_artifacts = [], createdAt = 0, updatedAt = 0\<rparr>, \<lparr>q_id = js ''q2'', q_number = 2, q_prompt = js ''p'', q_code = js ''c'', q_output = [], q_artifacts = [], createdAt = 0, updatedAt = 0\<rparr>], activeQueryId = Some (js ''q1''), aiMessages = [], isSidebarCollapsed = False, isAIPanelCollapsed = False, aiScrollPosition = 0, activeArtifact = None, activeArtifactCode = None\<rparr>)
   \<and> activeQueryValid (toggleSidebar \<lparr>dataSources = [], isConnected = False, queries = [\<lparr>q_id = js ''q1'', q_number = 1, q_prompt = js ''p'', q_code = js ''c'', q_output = [], q_artifacts = [], createdAt = 0, updatedAt = 0\<rparr>, \<lparr>q_id = js ''q2'', q_number = 2, q_prompt = js ''p'', q_code = js ''c'', q_output = [], q_artifacts = [], createdAt = 0, updatedAt = 0\<rparr>], activeQueryId = Some (js ''q1''), aiMessages = [], isSidebarCollapsed = False, isAIPanelCollapsed = False, aiScrollPosition = 0, activeArtifact = None, activeArtifactCode = None\<rparr>)"
proof -
  have v: "activeQueryValid \<lparr>dataSources = [], isConnected = False, queries = [\<lparr>q_id = js ''q1'', q_number = 1, q_prompt = js ''p'', q_code = js ''c'', q_output = [], q_artifacts = [], createdAt = 0, updatedAt = 0\<rparr>, \<lparr>q_id = js ''q2'', q_number = 2, q_prompt = js ''p'', q_code = js ''c'', q_output = [], q_artifacts = [], createdAt = 0, updatedAt = 0\<rparr>], activeQueryId = Some (js ''q1''), aiMessages = [], isSidebarCollapsed = False, isAIPanelCollapsed = False, aiScrollPosition = 0, activeArtifact = None, activeArtifactCode = None\<rparr>"
    by (simp add: activeQueryValid_def js_simps)
  show ?thesis
    using v active_query_integrity[where s = "\<lparr>dataSources = [], isConnected = False, queries = [\<lparr>q_id = js ''q1'', q_number = 1, q_prompt = js ''p'', q_code = js ''c'', q_output = [], q_artifacts = [], createdAt = 0, updatedAt = 0\<rparr>, \<lparr>q_id = js ''q2'', q_number = 2, q_prompt = js ''p'', q_code = js ''c'', q_output = [], q_artifacts = [], createdAt = 0, updatedAt = 0\<rparr>], activeQueryId = Some (js ''q1''), aiMessages = [], isSidebarCollapsed = False, isAIPanelCollapsed = False, aiScrollPosition = 0, activeArtifact = None, activeArtifactCode = None\<rparr>" and i = "js ''q1''" and x = "Some (js ''q2'')"]
    by (simp add: js_simps)
qed

text \<open>
  Claim C2 as stated fails: \<open>setActiveQuery\<close> with an identifier no query has leaves an
  active identifier that references nothing.
\<close>

theorem setActiveQuery_dangling_counterexample:
  "activeQueryValid \<lparr>dataSources = [], isConnected = False, queries = [\<lparr>q_id = js ''q1'', q_number = 1, q_prompt = js ''p'', q_code = js ''c'', q_output = [], q_artifacts = [], createdAt = 0, updatedAt = 0\<rparr>, \<lparr>q_id = js ''q2'', q_number = 2, q_prompt = js ''p'', q_code = js ''c'', q_output = [], q_artifacts = [], createdAt = 0, updatedAt = 0\<rparr>], activeQueryId = Some (js ''q1''), aiMessages = [], isSidebarCollapsed = False, isAIPanelCollapsed = False, aiScrollPosition = 0, activeArtifact = None, activeArtifactCode = None\<rparr>
   \<and> \<not> activeQueryValid (setActiveQuery (Some (js ''ghost'')) \<lparr>dataSources = [], isConnected = False, queries = [\<lparr>q_id = js ''q1'', q_number = 1, q_prompt = js ''p'', q_code = js ''c'', q_output = [], q_artifacts = [], createdAt = 0, updatedAt = 0\<rparr>, \<lparr>q_id = js ''q2'', q_number = 2, q_prompt = js ''p'', q_code = js ''c'', q_output = [], q_artifacts = [], createdAt = 0, updatedAt = 0\<rparr>], activeQueryId = Some (js ''q1''), aiMessages = [], isSidebarCollapsed = False, isAIPanelCollapsed = False, aiScrollPosition = 0, activeArtifact = None, activeArtifactCode = None\<rparr>)
   \<and> activeQueryId (setActiveQuery (Some (js ''ghost'')) \<lparr>dataSources = [], isConnected = False, queries = [\<lparr>q_id = js ''q1'', q_number = 1, q_prompt = js ''p'', q_code = js ''c'', q_output = [], q_artifacts = [], createdAt = 0, updatedAt = 0\<rparr>, \<lparr>q_id = js ''q2'', q_number = 2, q_prompt = js ''p'', q_code = js ''c'', q_output = [], q_artifacts = [], createdAt = 0, updatedAt = 0\<rparr>], activeQueryId = Some (js ''q1''), aiMessages = [], isSidebarCollapsed = False, isAIPanelCollapsed = False, aiScrollPosition = 0, activeArtifact = None, activeArtifactCode = None\<rparr>) = Some (js ''ghost'')"
  by (simp add: activeQueryValid_def setActiveQuery_def js_simps)

section \<open>Properties of the notebook\<close>

text \<open>
  Claim C10. For a cell at an index other than 0, \<open>moveUp\<close> followed by \<open>moveDown\<close> of the
  same cell (which \<open>moveUp\<close> has put one place earlier) gives back the original list;
  both operations only permute the list, so no cell's id, source, type, status or output
  changes.
\<close>

theorem move_up_then_down:
  "0 < i \<Longrightarrow> i < length cs \<Longrightarrow>
     onMoveUp i cs ! (i - 1) = cs ! i
   \<and> onMoveDown (i - 1) (onMoveUp i cs) = cs
   \<and> mset (onMoveUp i cs) = mset cs
   \<and> mset (onMoveDown j ds) = mset ds"
  by (auto simp: onMoveUp_def onMoveDown_def list_update_swap mset_swap list_update_overwrite)

theorem move_up_then_down_witness:
  "onMoveUp 2 [\<lparr>c_id = js ''A'', c_code = js ''x'', c_output = None, c_status = Idle, c_type = Code\<rparr>, \<lparr>c_id = js ''B'', c_code = js ''y'', c_output = None, c_status = Success, c_type = Code\<rparr>, \<lparr>c_id = js ''C'', c_code = js ''z'', c_output = None, c_status = Idle, c_type = Markdown\<rparr>] = [\<lparr>c_id = js ''A'', c_code = js ''x'', c_output = None, c_status = Idle, c_type = Code\<rparr>, \<lparr>c_id = js ''C'', c_code = js ''z'', c_output = None, c_status = Idle, c_type = Markdown\<rparr>, \<lparr>c_id = js ''B'', c_code = js ''y'', c_output = None, c_status = Success, c_type = Code\<rparr>]
   \<and> onMoveDown 1 (onMoveUp 2 [\<lparr>c_id = js ''A'', c_code = js ''x'', c_output = None, c_status = Idle, c_type = Code\<rparr>, \<lparr>c_id = js ''B'', c_code = js ''y'', c_output = None, c_status = Success, c_type = Code\<rparr>, \<lparr>c_id = js ''C'', c_code = js ''z'', c_output = None, c_status = Idle, c_type = Markdown\<rparr>]) = [\<lparr>c_id = js ''A'', c_code = js ''x'', c_output = None, c_status = Idle, c_type = Code\<rparr>, \<lparr>c_id = js ''B'', c_code = js ''y'', c_output = None, c_status = Success, c_type = Code\<rparr>, \<lparr>c_id = js ''C'', c_code = js ''z'', c_output = None, c_status = Idle, c_type = Markdown\<rparr>]"
  using move_up_then_down[of 2 "[\<lparr>c_id = js ''A'', c_code = js ''x'', c_output = None, c_status = Idle, c_type = Code\<rparr>, \<lparr>c_id = js ''B'', c_code = js ''y'', c_output = None, c_status = Success, c_type = Code\<rparr>, \<lparr>c_id = js ''C'', c_code = js ''z'', c_output = None, c_status = Idle, c_type = Markdown\<rparr>]"]
  by (simp add: onMoveUp_def)

lemma updateById_ids: "map c_id (updateById i f cs) = map c_id cs"
  if "\<And>c. c_id (f c) = c_id c"
  using that by (induction cs) (auto simp: updateById_def)

lemma updateById_length: "length (updateById i f cs) = length cs"
  by (simp add: updateById_def)

lemma updateById_other:
  "j < length cs \<Longrightarrow> c_id (cs ! j) \<noteq> i \<Longrightarrow> updateById i f cs ! j = cs ! j"
  by (simp add: updateById_def)

lemma updateById_hit:
  "j < length cs \<Longrightarrow> c_id (cs ! j) = i \<Longrightarrow> updateById i f cs ! j = f (cs ! j)"
  by (simp add: updateById_def)

text \<open>The loop never changes the identifiers or the number of cells.\<close>

lemma runAllLoop_ids:
  "map c_id (cells (runAllLoop svc cid todo nb)) = map c_id (cells nb)"
proof (induction todo arbitrary: nb)
  case Nil
  then show ?case by simp
next
  case (Cons cell rest)
  show ?case
    by (simp add: Let_def Cons.IH updateById_ids split: exec_outcome.splits)
qed

text \<open>A cell whose identifier is not among those of the iterated cells is left as it is.\<close>

lemma runAllLoop_other:
  "j < length (cells nb) \<Longrightarrow> c_id (cells nb ! j) \<notin> set (map c_id todo) \<Longrightarrow>
   cells (runAllLoop svc cid todo nb) ! j = cells nb ! j"
proof (induction todo arbitrary: nb)
  case Nil
  then show ?case by simp
next
  case (Cons cell rest)
  from Cons.prems have ne: "c_id (cells nb ! j) \<noteq> c_id cell"
    and nr: "c_id (cells nb ! j) \<notin> set (map c_id rest)" by auto
  show ?case
    using Cons.prems(1) ne nr
    by (simp add: Let_def Cons.IH updateById_other updateById_length updateById_hit split: exec_outcome.splits)
qed

text \<open>The loop stops at the first failing code cell: the cells after it are not iterated.\<close>

lemma runAllLoop_stops:
  "runsClean svc cid (execLog nb) pre \<Longrightarrow> c_type a = Code \<Longrightarrow>
   failing (svc (execLog nb @ callsOf cid pre) cid (c_code a)) \<Longrightarrow>
   runAllLoop svc cid (pre @ a # post) nb = runAllLoop svc cid (pre @ [a]) nb"
proof (induction pre arbitrary: nb)
  case Nil
  then show ?case
    by (simp add: Let_def failing_def callsOf_def split: exec_outcome.splits)
next
  case (Cons c pre)
  show ?case
  proof (cases "c_type c = Markdown")
    case True
    with Cons.prems show ?thesis
      by (simp add: Let_def callsOf_def Cons.IH)
  next
    case False
    then have code: "c_type c = Code" by (cases "c_type c") auto
    from Cons.prems(1) False obtain r where r: "svc (execLog nb) cid (c_code c) = Returned r"
      and ok: "r_status r \<noteq> js ''error''"
      and rest: "runsClean svc cid (execLog nb @ [(cid, c_code c)]) pre"
      by (auto split: exec_outcome.splits)
    from Cons.prems(3) code
    have f: "failing (svc ((execLog nb @ [(cid, c_code c)]) @ callsOf cid pre) cid (c_code a))"
      by (simp add: callsOf_def)
    show ?thesis
      using False r ok rest f Cons.prems(2)
      by (simp add: Let_def Cons.IH)
  qed
qed

lemma runAllLoop_log:
  "runsClean svc cid (execLog nb) pre \<Longrightarrow> c_type a = Code \<Longrightarrow>
   failing (svc (execLog nb @ callsOf cid pre) cid (c_code a)) \<Longrightarrow>
   execLog (runAllLoop svc cid (pre @ [a]) nb) = execLog nb @ callsOf cid (pre @ [a])"
proof (induction pre arbitrary: nb)
  case Nil
  then show ?case
    by (simp add: Let_def failing_def callsOf_def split: exec_outcome.splits)
next
  case (Cons c pre)
  show ?case
  proof (cases "c_type c = Markdown")
    case True
    with Cons.prems show ?thesis
      by (simp add: Let_def callsOf_def Cons.IH)
  next
    case False
    then have code: "c_type c = Code" by (cases "c_type c") auto
    from Cons.prems(1) False obtain r where r: "svc (execLog nb) cid (c_code c) = Returned r"
      and ok: "r_status r \<noteq> js ''error''"
      and rest: "runsClean svc cid (execLog nb @ [(cid, c_code c)]) pre"
      by (auto split: exec_outcome.splits)
    from Cons.prems(3) code
    have f: "failing (svc ((execLog nb @ [(cid, c_code c)]) @ callsOf cid pre) cid (c_code a))"
      by (simp add: callsOf_def)
    show ?thesis
      using False r ok rest f Cons.prems(2) code
      by (simp add: Let_def Cons.IH callsOf_def)
  qed
qed

lemma runAllLoop_failed_status:
  "runsClean svc cid (execLog nb) pre \<Longrightarrow> c_type a = Code \<Longrightarrow>
   failing (svc (execLog nb @ callsOf cid pre) cid (c_code a)) \<Longrightarrow>
   j < length (cells nb) \<Longrightarrow> c_id (cells nb ! j) = c_id a \<Longrightarrow>
   c_status (cells (runAllLoop svc cid (pre @ [a]) nb) ! j) = CellError"
proof (induction pre arbitrary: nb)
  case Nil
  then show ?case
    by (auto simp: Let_def failing_def callsOf_def updateById_def split: exec_outcome.splits)
next
  case (Cons c pre)
  show ?case
  proof (cases "c_type c = Markdown")
    case True
    with Cons.prems show ?thesis
      by (simp add: Let_def callsOf_def Cons.IH updateById_def)
  next
    case False
    then have code: "c_type c = Code" by (cases "c_type c") auto
    from Cons.prems(1) False obtain r where r: "svc (execLog nb) cid (c_code c) = Returned r"
      and ok: "r_status r \<noteq> js ''error''"
      and rest: "runsClean svc cid (execLog nb @ [(cid, c_code c)]) pre"
      by (auto split: exec_outcome.splits)
    from Cons.prems(3) code
    have f: "failing (svc ((execLog nb @ [(cid, c_code c)]) @ callsOf cid pre) cid (c_code a))"
      by (simp add: callsOf_def)
    show ?thesis
      using False r ok rest f Cons.prems(2,4,5) code
      by (simp add: Let_def Cons.IH callsOf_def updateById_def)
  qed
qed

text \<open>
  Claim C1, as amended. With a cluster selected and pairwise distinct cell ids, when the
  first code cell that resolves to error (or whose call is rejected) is reached, the loop
  stops: that cell's status is \<open>error\<close>, no later cell is executed (the service is called
  for the code cells up to it and no other), and every later cell is as the reset at the
  start of \<open>runAll\<close> left it: unchanged but for its status, which is \<open>idle\<close> unless it was
  \<open>running\<close>.
\<close>

theorem runAll_stops_at_first_error:
  assumes sel: "clusterId nb = Some cid" "cid \<noteq> []"
    and split: "cells nb = pre @ a # post"
    and dist: "distinct (map c_id (cells nb))"
    and code: "c_type a = Code"
    and clean: "runsClean svc cid (execLog nb) pre"
    and fails: "failing (svc (execLog nb @ callsOf cid pre) cid (c_code a))"
  shows "c_status (cells (runAll svc nb) ! length pre) = CellError
       \<and> drop (Suc (length pre)) (cells (runAll svc nb)) = map resetStatus post
       \<and> execLog (runAll svc nb) = execLog nb @ callsOf cid (pre @ [a])"
proof -
  define nb0 where "nb0 = nb\<lparr>cells := map resetStatus (cells nb)\<rparr>"
  have ids0: "map c_id (cells nb0) = map c_id (cells nb)"
    by (simp add: nb0_def resetStatus_def)
  have log0: "execLog nb0 = execLog nb" by (simp add: nb0_def)
  have len0: "length (cells nb0) = length pre + Suc (length post)"
    by (simp add: nb0_def split)
  have "runAll svc nb = runAllLoop svc cid (pre @ a # post) nb0"
    using sel by (simp add: runAll_def nb0_def split)
  also have "\<dots> = runAllLoop svc cid (pre @ [a]) nb0"
    by (rule runAllLoop_stops) (simp_all add: log0 clean fails code)
  finally have run: "runAll svc nb = runAllLoop svc cid (pre @ [a]) nb0" .
  have idA: "c_id (cells nb0 ! length pre) = c_id a"
    by (simp add: nb0_def split nth_append resetStatus_def)
  have st: "c_status (cells (runAll svc nb) ! length pre) = CellError"
    unfolding run
    by (rule runAllLoop_failed_status) (use clean fails code log0 len0 idA in simp_all)
  have lenR: "length (cells (runAll svc nb)) = length pre + Suc (length post)"
    using arg_cong[OF runAllLoop_ids[of svc cid "pre @ [a]" nb0], of length] len0
    by (simp add: run)
  have rest: "drop (Suc (length pre)) (cells (runAll svc nb)) = map resetStatus post"
  proof (rule nth_equalityI)
    show "length (drop (Suc (length pre)) (cells (runAll svc nb))) = length (map resetStatus post)"
      using lenR by simp
  next
    fix k assume "k < length (drop (Suc (length pre)) (cells (runAll svc nb)))"
    then have k: "k < length post" using lenR by simp
    let ?j = "Suc (length pre) + k"
    have j: "?j < length (cells nb0)" using k len0 by simp
    have cell: "cells nb0 ! ?j = resetStatus (post ! k)"
      using k by (simp add: nb0_def split nth_append)
    have "c_id (post ! k) \<in> set (map c_id post)" using k by simp
    with dist have "c_id (post ! k) \<notin> set (map c_id (pre @ [a]))"
      by (auto simp: split)
    moreover have "c_id (cells nb0 ! ?j) = c_id (post ! k)"
      unfolding cell by (simp add: resetStatus_def)
    ultimately have notin: "c_id (cells nb0 ! ?j) \<notin> set (map c_id (pre @ [a]))"
      by simp
    have "cells (runAll svc nb) ! ?j = cells nb0 ! ?j"
      unfolding run by (rule runAllLoop_other[OF j notin])
    then show "drop (Suc (length pre)) (cells (runAll svc nb)) ! k = map resetStatus post ! k"
      using k lenR cell by simp
  qed
  have lg: "execLog (runAll svc nb) = execLog nb @ callsOf cid (pre @ [a])"
    unfolding run using runAllLoop_log[of svc cid nb0 pre a] clean fails code log0 by simp
  from st rest lg show ?thesis by blast
qed

theorem runAll_stops_at_first_error_witness:
  "c_status (cells (runAll (\<lambda>hist cid code. Returned \<lparr>r_status = js ''error'', r_output = None, r_error = Some (js ''boom'')\<rparr>)
      \<lparr>cells = [\<lparr>c_id = js ''A'', c_code = js ''x'', c_output = None, c_status = Idle, c_type = Code\<rparr>, \<lparr>c_id = js ''B'', c_code = js ''y'', c_output = None, c_status = Success, c_type = Code\<rparr>], clusterId = Some (js ''c1''), toasts = [], execLog = []\<rparr>) ! 0) = CellError
   \<and> drop 1 (cells (runAll (\<lambda>hist cid code. Returned \<lparr>r_status = js ''error'', r_output = None, r_error = Some (js ''boom'')\<rparr>)
      \<lparr>cells = [\<lparr>c_id = js ''A'', c_code = js ''x'', c_output = None, c_status = Idle, c_type = Code\<rparr>, \<lparr>c_id = js ''B'', c_code = js ''y'', c_output = None, c_status = Success, c_type = Code\<rparr>], clusterId = Some (js ''c1''), toasts = [], execLog = []\<rparr>))
      = [\<lparr>c_id = js ''B'', c_code = js ''y'', c_output = None, c_status = Idle, c_type = Code\<rparr>]
   \<and> execLog (runAll (\<lambda>hist cid code. Returned \<lparr>r_status = js ''error'', r_output = None, r_error = Some (js ''boom'')\<rparr>)
      \<lparr>cells = [\<lparr>c_id = js ''A'', c_code = js ''x'', c_output = None, c_status = Idle, c_type = Code\<rparr>, \<lparr>c_id = js ''B'', c_code = js ''y'', c_output = None, c_status = Success, c_type = Code\<rparr>], clusterId = Some (js ''c1''), toasts = [], execLog = []\<rparr>) = [(js ''c1'', js ''x'')]"
  using runAll_stops_at_first_error[of
      "\<lparr>cells = [\<lparr>c_id = js ''A'', c_code = js ''x'', c_output = None, c_status = Idle, c_type = Code\<rparr>, \<lparr>c_id = js ''B'', c_code = js ''y'', c_output = None, c_status = Success, c_type = Code\<rparr>], clusterId = Some (js ''c1''), toasts = [], execLog = []\<rparr>"
      "js ''c1''" "[]"
      "\<lparr>c_id = js ''A'', c_code = js ''x'', c_output = None, c_status = Idle, c_type = Code\<rparr>"
      "[\<lparr>c_id = js ''B'', c_code = js ''y'', c_output = None, c_status = Success, c_type = Code\<rparr>]"
      "(\<lambda>hist cid code. Returned \<lparr>r_status = js ''error'', r_output = None, r_error = Some (js ''boom'')\<rparr>)"]
  by (simp add: js_simps failing_def callsOf_def resetStatus_def)

text \<open>
  Claim C1 as stated fails: the cell after the failing one had status \<open>success\<close> before
  \<open>runAll\<close> and has status \<open>idle\<close> after it.
\<close>

theorem runAll_resets_later_cells_counterexample:
  "c_status (cells \<lparr>cells = [\<lparr>c_id = js ''A'', c_code = js ''x'', c_output = None, c_status = Idle, c_type = Code\<rparr>, \<lparr>c_id = js ''B'', c_code = js ''y'', c_output = None, c_status = Success, c_type = Code\<rparr>], clusterId = Some (js ''c1''), toasts = [], execLog = []\<rparr> ! 1) = Success
   \<and> c_status (cells (runAll (\<lambda>hist cid code. Returned \<lparr>r_status = js ''error'', r_output = None, r_error = Some (js ''boom'')\<rparr>)
      \<lparr>cells = [\<lparr>c_id = js ''A'', c_code = js ''x'', c_output = None, c_status = Idle, c_type = Code\<rparr>, \<lparr>c_id = js ''B'', c_code = js ''y'', c_output = None, c_status = Success, c_type = Code\<rparr>], clusterId = Some (js ''c1''), toasts = [], execLog = []\<rparr>) ! 1) = Idle
   \<and> c_status (cells (runAll (\<lambda>hist cid code. Returned \<lparr>r_status = js ''error'', r_output = None, r_error = Some (js ''boom'')\<rparr>)
      \<lparr>cells = [\<lparr>c_id = js ''A'', c_code = js ''x'', c_output = None, c_status = Idle, c_type = Code\<rparr>, \<lparr>c_id = js ''B'', c_code = js ''y'', c_output = None, c_status = Success, c_type = Code\<rparr>], clusterId = Some (js ''c1''), toasts = [], execLog = []\<rparr>) ! 0) = CellError"
  by (simp add: runAll_def updateById_def resetStatus_def errorOrOutput_def js_simps Let_def)

section \<open>Properties of the upload batch\<close>

lemma uploadLoop_log:
  "uploadLog (uploadLoop svc uuids clock files z) = uploadLog z @ files"
  by (induction files arbitrary: z) (auto simp: Let_def split: upload_outcome.splits)

lemma uploadLoop_sources:
  "dataSources (zoneStore (uploadLoop svc uuids clock files z)) =
     dataSources (zoneStore z) @
       map (\<lambda>k. \<lparr>ds_id = uuids (length (uploadLog z) + k), ds_name = f_name (files ! k),
                  ds_type = fileType (files ! k), connectedAt = clock (length (uploadLog z) + k),
                  ds_status = statusOf (svc (uploadLog z @ take k files) (files ! k))\<rparr>)
           [0..<length files]"
proof (induction files arbitrary: z)
  case Nil
  then show ?case by simp
next
  case (Cons f rest)
  have shift: "[0..<length (f # rest)] = 0 # map Suc [0..<length rest]"
    by (simp add: upt_conv_Cons map_Suc_upt del: upt_Suc)
  show ?case
    unfolding shift
    by (cases "svc (uploadLog z) f")
       (simp_all add: Let_def Cons.IH addDataSource_def statusOf_def comp_def del: upt_Suc)
qed

text \<open>
  Claim C8. The files of a batch are uploaded one at a time in their order, and a failed
  upload does not stop the batch: every file is handed to the file service, every file
  gets one data source entry, in order, after the entries the store had, and the entry
  has status \<open>connected\<close> when the upload succeeded and \<open>error\<close> when it was rejected.
\<close>

theorem upload_batch_continues:
  "uploadLog (uploadFilesToBackend svc uuids clock files z) = uploadLog z @ files
   \<and> map ds_name (drop (length (dataSources (zoneStore z)))
         (dataSources (zoneStore (uploadFilesToBackend svc uuids clock files z)))) = map f_name files
   \<and> map ds_status (drop (length (dataSources (zoneStore z)))
         (dataSources (zoneStore (uploadFilesToBackend svc uuids clock files z))))
       = map (\<lambda>k. statusOf (svc (uploadLog z @ take k files) (files ! k))) [0..<length files]
   \<and> take (length (dataSources (zoneStore z)))
         (dataSources (zoneStore (uploadFilesToBackend svc uuids clock files z))) = dataSources (zoneStore z)"
proof -
  define z0 where "z0 = z\<lparr>isUploading := True, uploadError := None\<rparr>"
  define new where "new = map (\<lambda>k. \<lparr>ds_id = uuids (length (uploadLog z) + k), ds_name = f_name (files ! k),
                  ds_type = fileType (files ! k), connectedAt = clock (length (uploadLog z) + k),
                  ds_status = statusOf (svc (uploadLog z @ take k files) (files ! k))\<rparr>)
           [0..<length files]"
  have z0: "uploadLog z0 = uploadLog z" "zoneStore z0 = zoneStore z" by (simp_all add: z0_def)
  have lg: "uploadLog (uploadFilesToBackend svc uuids clock files z) = uploadLog z @ files"
    by (simp add: uploadFilesToBackend_def uploadLoop_log)
  have "dataSources (zoneStore (uploadFilesToBackend svc uuids clock files z))
      = dataSources (zoneStore (uploadLoop svc uuids clock files z0))"
    by (simp add: uploadFilesToBackend_def z0_def)
  also have "\<dots> = dataSources (zoneStore z) @ new"
    unfolding uploadLoop_sources z0 new_def ..
  finally have ds: "dataSources (zoneStore (uploadFilesToBackend svc uuids clock files z))
      = dataSources (zoneStore z) @ new" .
  have "map ds_name new = map (\<lambda>k. f_name (files ! k)) [0..<length files]"
    unfolding new_def by (simp add: comp_def del: upt_Suc)
  also have "\<dots> = map f_name (map (\<lambda>k. files ! k) [0..<length files])"
    by (simp add: comp_def del: upt_Suc)
  also have "\<dots> = map f_name files"
    by (simp only: map_nth)
  finally have names: "map ds_name new = map f_name files" .
  have stats: "map ds_status new
      = map (\<lambda>k. statusOf (svc (uploadLog z @ take k files) (files ! k))) [0..<length files]"
    unfolding new_def by (simp add: comp_def del: upt_Suc)
  show ?thesis unfolding ds lg using names stats by simp
qed

theorem upload_batch_continues_witness:
  "uploadLog (uploadFilesToBackend (\<lambda>hist f. if f_name f = js ''b.json'' then UploadRejected (Some (js ''500'')) else Uploaded) (\<lambda>n. js ''id'') (\<lambda>n. 0) [\<lparr>f_name = js ''a.csv'', f_content = []\<rparr>, \<lparr>f_name = js ''b.json'', f_content = []\<rparr>, \<lparr>f_name = js ''c.xlsx'', f_content = []\<rparr>] \<lparr>zoneStore = \<lparr>dataSources = [], isConnected = False, queries = [], activeQueryId = None, aiMessages = [], isSidebarCollapsed = False, isAIPanelCollapsed = False, aiScrollPosition = 0, activeArtifact = None, activeArtifactCode = None\<rparr>, isUploading = False, uploadError = None, uploadLog = []\<rparr>) = [\<lparr>f_name = js ''a.csv'', f_content = []\<rparr>, \<lparr>f_name = js ''b.json'', f_content = []\<rparr>, \<lparr>f_name = js ''c.xlsx'', f_content = []\<rparr>]
   \<and> map ds_name (dataSources (zoneStore (uploadFilesToBackend (\<lambda>hist f. if f_name f = js ''b.json'' then UploadRejected (Some (js ''500'')) else Uploaded) (\<lambda>n. js ''id'') (\<lambda>n. 0) [\<lparr>f_name = js ''a.csv'', f_content = []\<rparr>, \<lparr>f_name = js ''b.json'', f_content = []\<rparr>, \<lparr>f_name = js ''c.xlsx'', f_content = []\<rparr>] \<lparr>zoneStore = \<lparr>dataSources = [], isConnected = False, queries = [], activeQueryId = None, aiMessages = [], isSidebarCollapsed = False, isAIPanelCollapsed = False, aiScrollPosition = 0, activeArtifact = None, activeArtifactCode = None\<rparr>, isUploading = False, uploadError = None, uploadLog = []\<rparr>))) = [js ''a.csv'', js ''b.json'', js ''c.xlsx'']
   \<and> map ds_status (dataSources (zoneStore (uploadFilesToBackend (\<lambda>hist f. if f_name f = js ''b.json'' then UploadRejected (Some (js ''500'')) else Uploaded) (\<lambda>n. js ''id'') (\<lambda>n. 0) [\<lparr>f_name = js ''a.csv'', f_content = []\<rparr>, \<lparr>f_name = js ''b.json'', f_content = []\<rparr>, \<lparr>f_name = js ''c.xlsx'', f_content = []\<rparr>] \<lparr>zoneStore = \<lparr>dataSources = [], isConnected = False, queries = [], activeQueryId = None, aiMessages = [], isSidebarCollapsed = False, isAIPanelCollapsed = False, aiScrollPosition = 0, activeArtifact = None, activeArtifactCode = None\<rparr>, isUploading = False, uploadError = None, uploadLog = []\<rparr>))) = [Connected, DsError, Connected]"
  using upload_batch_continues[of "(\<lambda>hist f. if f_name f = js ''b.json'' then UploadRejected (Some (js ''500'')) else Uploaded)" "\<lambda>n. js ''id''" "\<lambda>n. 0" "[\<lparr>f_name = js ''a.csv'', f_content = []\<rparr>, \<lparr>f_name = js ''b.json'', f_content = []\<rparr>, \<lparr>f_name = js ''c.xlsx'', f_content = []\<rparr>]" "\<lparr>zoneStore = \<lparr>dataSources = [], isConnected = False, queries = [], activeQueryId = None, aiMessages = [], isSidebarCollapsed = False, isAIPanelCollapsed = False, aiScrollPosition = 0, activeArtifact = None, activeArtifactCode = None\<rparr>, isUploading = False, uploadError = None, uploadLog = []\<rparr>"]
  by (simp add: js_simps statusOf_def)

section \<open>Properties of the chat response parser\<close>

text \<open>
  Claim C3. For the response \<open>"Here is code:\n```python\nprint(1)\n```\nSuggestions:\n- try X\n- try Y"\<close>
  the parser yields the content \<open>"Here is code:"\<close>, the code \<open>"print(1)"\<close> and the
  suggestions \<open>["try X", "try Y"]\<close>.
\<close>

theorem parse_example:
  "parseResponse (js ''Here is code:'' @ [nl] @ fence @ js ''python'' @ [nl] @ js ''print(1)'' @ [nl] @ fence @ [nl] @ js ''Suggestions:'' @ [nl] @ js ''- try X'' @ [nl] @ js ''- try Y'')
   = \<lparr>p_content = js ''Here is code:'', p_code = Some (js ''print(1)''),
      p_suggestions = Some [js ''try X'', js ''try Y'']\<rparr>"
  by code_simp

theorem parse_example_witness:
  "p_code (parseResponse (js ''Here is code:'' @ [nl] @ fence @ js ''python'' @ [nl] @ js ''print(1)'' @ [nl] @ fence @ [nl] @ js ''Suggestions:'' @ [nl] @ js ''- try X'' @ [nl] @ js ''- try Y'')) = Some (js ''print(1)'')
   \<and> p_content (parseResponse (js ''Here is code:'' @ [nl] @ fence @ js ''python'' @ [nl] @ js ''print(1)'' @ [nl] @ fence @ [nl] @ js ''Suggestions:'' @ [nl] @ js ''- try X'' @ [nl] @ js ''- try Y'')) = js ''Here is code:''"
  using parse_example by simp

lemma canonicalize_colon: "canonicalize c = 0x3A \<longleftrightarrow> c = 0x3A"
  unfolding canonicalize_def by (auto; unat_arith)

lemma ciStartsWith_snoc:
  "ciStartsWith s (lit @ [x]) \<longleftrightarrow>
     ciStartsWith s lit \<and> length lit < length s \<and> canonicalize (s ! length lit) = canonicalize x"
proof (cases "length lit < length s")
  case True
  then have "take (Suc (length lit)) s = take (length lit) s @ [s ! length lit]"
    by (simp add: take_Suc_conv_app_nth)
  with True show ?thesis by (simp add: ciStartsWith_def)
next
  case False
  then have "length (map canonicalize (take (length (lit @ [x])) s)) \<noteq> length (map canonicalize (lit @ [x]))"
    by simp
  then have "map canonicalize (take (length (lit @ [x])) s) \<noteq> map canonicalize (lit @ [x])"
    by metis
  with False show ?thesis by (simp add: ciStartsWith_def)
qed

lemma startsWith_single: "startsWith (drop n s) [c] \<longleftrightarrow> n < length s \<and> s ! n = c"
  by (cases "n < length s") (auto simp: startsWith_def take_Suc_conv_app_nth Cons_nth_drop_Suc[symmetric])

lemma afterMarker_None:
  "afterMarker s = None \<longleftrightarrow>
     \<not> (ciStartsWith s (js ''Suggestions:'') \<or> ciStartsWith s (js ''Suggested Next Steps:''))"
proof -
  have a: "js ''Suggestions:'' = js ''Suggestions'' @ [0x3A]"
    and b: "js ''Suggested Next Steps:'' = js ''Suggested Next Steps'' @ [0x3A]"
    by (simp_all add: js_def)
  have la: "length (js ''Suggestions'') = 11" and lb: "length (js ''Suggested Next Steps'') = 20"
    by (simp_all add: js_def)
  have c: "canonicalize (0x3A::jchar) = 0x3A" by (simp add: canonicalize_colon)
  show ?thesis
    unfolding a b ciStartsWith_snoc la lb c canonicalize_colon afterMarker_def startsWith_single
    by auto
qed

lemma suggestionSearch_pos:
  "0 < i \<Longrightarrow>
   (suggestionSearch i s = None) = (\<forall>k<length s. s ! k = nl \<longrightarrow> afterMarker (drop (Suc k) s) = None)"
proof (induction s arbitrary: i)
  case Nil
  then show ?case by simp
next
  case (Cons c cs)
  from Cons.prems have i: "i \<noteq> 0" by simp
  have ih: "(suggestionSearch (Suc i) cs = None)
      = (\<forall>k<length cs. cs ! k = nl \<longrightarrow> afterMarker (drop (Suc k) cs) = None)"
    by (rule Cons.IH) simp
  show ?case
    using i by (auto simp: ih All_less_Suc2 split: option.splits)
qed

lemma suggestionMatch_None:
  "suggestionMatch t = None \<longleftrightarrow> \<not> hasSuggestionSection t"
proof -
  have search: "(suggestionSearch 0 t = None)
      = (afterMarker t = None \<and> (\<forall>k<length t. t ! k = nl \<longrightarrow> afterMarker (drop (Suc k) t) = None))"
  proof (cases t)
    case Nil
    then show ?thesis by (simp add: afterMarker_None ciStartsWith_def js_def) 
  next
    case (Cons c cs)
    have "(suggestionSearch (Suc 0) cs = None)
      = (\<forall>k<length cs. cs ! k = nl \<longrightarrow> afterMarker (drop (Suc k) cs) = None)"
      by (rule suggestionSearch_pos) simp
    then show ?thesis
      using Cons by (auto simp: All_less_Suc2 split: option.splits)
  qed
  have spec: "(\<not> hasSuggestionSection t)
      = (afterMarker t = None \<and> (\<forall>k<length t. t ! k = nl \<longrightarrow> afterMarker (drop (Suc k) t) = None))"
  proof
    assume h: "\<not> hasSuggestionSection t"
    have z: "afterMarker t = None"
      using h unfolding hasSuggestionSection_def afterMarker_None
      by (auto dest: bspec[where x=0])
    have "\<forall>k<length t. t ! k = nl \<longrightarrow> afterMarker (drop (Suc k) t) = None"
    proof (intro allI impI)
      fix k assume k: "k < length t" and n: "t ! k = nl"
      then have "Suc k \<in> {0..length t}" by simp
      with h n show "afterMarker (drop (Suc k) t) = None"
        unfolding hasSuggestionSection_def afterMarker_None
        by (auto dest!: bspec[where x="Suc k"])
    qed
    with z show "afterMarker t = None \<and> (\<forall>k<length t. t ! k = nl \<longrightarrow> afterMarker (drop (Suc k) t) = None)"
      by blast
  next
    assume a: "afterMarker t = None \<and> (\<forall>k<length t. t ! k = nl \<longrightarrow> afterMarker (drop (Suc k) t) = None)"
    show "\<not> hasSuggestionSection t"
      unfolding hasSuggestionSection_def
    proof (rule notI, elim bexE conjE)
      fix i assume i: "i \<in> {0..length t}" and st: "i = 0 \<or> t ! (i - 1) = nl"
        and m: "ciStartsWith (drop i t) (js ''Suggestions:'') \<or> ciStartsWith (drop i t) (js ''Suggested Next Steps:'')"
      from m have am: "afterMarker (drop i t) \<noteq> None" by (simp add: afterMarker_None)
      show False
      proof (cases i)
        case 0
        with am a show False by simp
      next
        case (Suc k)
        have "k < length t"
        proof (rule ccontr)
          assume "\<not> k < length t"
          then have "drop i t = []" using Suc by simp
          with am show False by (simp add: afterMarker_None ciStartsWith_def js_def)
        qed
        with st Suc a am show False by auto
      qed
    qed
  qed
  show ?thesis unfolding suggestionMatch_def search spec ..
qed

text \<open>
  Claim C4, as amended. For every response text with no triple-backtick fence and no
  suggestions section, the parser returns the text unchanged as content (it is not
  trimmed), with code absent and suggestions absent. The parser is a total function, so
  it returns for every text.
\<close>

theorem parse_plain_text:
  "\<not> includesStr raw fence \<Longrightarrow> \<not> hasSuggestionSection raw \<Longrightarrow>
   parseResponse raw = \<lparr>p_content = raw, p_code = None, p_suggestions = None\<rparr>"
  by (simp add: parseResponse_def extractCode_def extractSuggestions_def
        suggestionMatch_None[symmetric])

theorem parse_plain_text_witness:
  "parseResponse (js ''  hi  '') = \<lparr>p_content = js ''  hi  '', p_code = None, p_suggestions = None\<rparr>"
proof -
  have a: "\<not> includesStr (js ''  hi  '') fence" by code_simp
  have b: "\<not> hasSuggestionSection (js ''  hi  '')" by code_simp
  show ?thesis by (rule parse_plain_text[OF a b])
qed

text \<open>
  Claim C4 as stated fails: a text with white space around it, no fence and no
  suggestions section comes back with the white space, not trimmed.
\<close>

theorem parse_plain_text_not_trimmed_counterexample:
  "\<not> includesStr (js ''  hi  '') fence \<and> \<not> hasSuggestionSection (js ''  hi  '')
   \<and> p_content (parseResponse (js ''  hi  '')) = js ''  hi  ''
   \<and> trim (js ''  hi  '') = js ''hi''
   \<and> p_content (parseResponse (js ''  hi  '')) \<noteq> trim (js ''  hi  '')"
  by code_simp

text \<open>
  Claim C5. The claim has the lines of a suggestions section that start with a hyphen
  or with the bullet character collected, the marker stripped. Evaluated on the code: a
  line starting with a hyphen is collected; a line starting with the bullet character
  U+2022 is not, so the section gives no suggestions; and a line starting with the three
  code units of the literal in the source is collected with only the first of them
  stripped.
\<close>

theorem bullet_lines_not_collected:
  "p_suggestions (parseResponse (js ''Suggestions:'' @ [nl] @ js ''- try X'')) = Some [js ''try X'']
   \<and> p_suggestions (parseResponse (js ''Suggestions:'' @ [nl] @ [bulletChar] @ js '' try X'')) = None
   \<and> p_suggestions (parseResponse (js ''Suggestions:'' @ [nl] @ bulletLiteral @ js '' try X''))
       = Some [[0x20AC, 0xA2] @ js '' try X'']
   \<and> p_content (parseResponse (js ''Suggestions:'' @ [nl] @ [bulletChar] @ js '' try X'')) = []"
  by code_simp

section \<open>Properties of the chat panel\<close>

text \<open>
  Claim C9, as amended. When the last scroll event left the transcript 250 pixels or
  more above its bottom, appending the assistant's reply (or the error message) does not
  change the scroll offset; when it left it less than 250 pixels above the bottom, the
  reply scrolls the transcript to the bottom. A message the user sends turns
  auto-scrolling on and scrolls to the bottom whatever the offset was.
\<close>

theorem scroll_on_new_message:
  "(250 \<le> scrollHeight p - \<lceil>scrollTop p\<rceil> - clientHeight p \<longrightarrow>
      scrollTop (handleSendEnd reply uuid now h (handleScroll p)) = scrollTop p)
   \<and> (scrollHeight p - \<lceil>scrollTop p\<rceil> - clientHeight p < 250 \<longrightarrow>
      scrollTop (handleSendEnd reply uuid now h (handleScroll p))
        = real_of_int (max 0 (scrollHeight p + h - clientHeight p)))
   \<and> (trim (case text of Some t \<Rightarrow> if t \<noteq> [] then t else input p | None \<Rightarrow> input p) \<noteq> [] \<longrightarrow>
      scrollTop (handleSendBegin text uuid now h (handleScroll p))
        = real_of_int (max 0 (scrollHeight p + h - clientHeight p)))"
  by (cases "text")
     (simp_all add: handleSendEnd_def handleSendBegin_def handleScroll_def messagesEffect_def
        scrollIntoViewEnd_def Let_def)

theorem scroll_on_new_message_witness:
  "scrollTop (handleSendEnd None (js ''m2'') 0 40
      (handleScroll \<lparr>panelStore = \<lparr>dataSources = [], isConnected = False, queries = [], activeQueryId = None,
           aiMessages = [], isSidebarCollapsed = False, isAIPanelCollapsed = False, aiScrollPosition = 0,
           activeArtifact = None, activeArtifactCode = None\<rparr>,
         input = js ''hi'', isTyping = False, shouldAutoScroll = True,
         scrollTop = 100, scrollHeight = 2000, clientHeight = 500\<rparr>)) = 100
   \<and> scrollTop (handleSendEnd None (js ''m2'') 0 40
      (handleScroll \<lparr>panelStore = \<lparr>dataSources = [], isConnected = False, queries = [], activeQueryId = None,
           aiMessages = [], isSidebarCollapsed = False, isAIPanelCollapsed = False, aiScrollPosition = 0,
           activeArtifact = None, activeArtifactCode = None\<rparr>,
         input = js ''hi'', isTyping = False, shouldAutoScroll = True,
         scrollTop = 1400, scrollHeight = 2000, clientHeight = 500\<rparr>)) = 1540
   \<and> scrollTop (handleSendBegin None (js ''m2'') 0 40
      (handleScroll \<lparr>panelStore = \<lparr>dataSources = [], isConnected = False, queries = [], activeQueryId = None,
           aiMessages = [], isSidebarCollapsed = False, isAIPanelCollapsed = False, aiScrollPosition = 0,
           activeArtifact = None, activeArtifactCode = None\<rparr>,
         input = js ''hi'', isTyping = False, shouldAutoScroll = True,
         scrollTop = 100, scrollHeight = 2000, clientHeight = 500\<rparr>)) = 1540"
proof -
  have t: "trim (js ''hi'') \<noteq> []" by code_simp
  show ?thesis
    using
      scroll_on_new_message[of "\<lparr>panelStore = \<lparr>dataSources = [], isConnected = False, queries = [], activeQueryId = None,
           aiMessages = [], isSidebarCollapsed = False, isAIPanelCollapsed = False, aiScrollPosition = 0,
           activeArtifact = None, activeArtifactCode = None\<rparr>,
         input = js ''hi'', isTyping = False, shouldAutoScroll = True,
         scrollTop = 100, scrollHeight = 2000, clientHeight = 500\<rparr>" None "js ''m2''" 0 40 None]
      scroll_on_new_message[of "\<lparr>panelStore = \<lparr>dataSources = [], isConnected = False, queries = [], activeQueryId = None,
           aiMessages = [], isSidebarCollapsed = False, isAIPanelCollapsed = False, aiScrollPosition = 0,
           activeArtifact = None, activeArtifactCode = None\<rparr>,
         input = js ''hi'', isTyping = False, shouldAutoScroll = True,
         scrollTop = 1400, scrollHeight = 2000, clientHeight = 500\<rparr>" None "js ''m2''" 0 40 None]
      t
    by simp
qed

text \<open>
  Claim C9 as stated fails: the transcript is 1400 pixels above its bottom, the user
  sends a message, and the offset changes from 100 to the bottom.
\<close>

theorem send_forces_scroll_counterexample:
  "250 \<le> scrollHeight \<lparr>panelStore = \<lparr>dataSources = [], isConnected = False, queries = [], activeQueryId = None,
           aiMessages = [], isSidebarCollapsed = False, isAIPanelCollapsed = False, aiScrollPosition = 0,
           activeArtifact = None, activeArtifactCode = None\<rparr>,
         input = js ''hi'', isTyping = False, shouldAutoScroll = True,
         scrollTop = 100, scrollHeight = 2000, clientHeight = 500\<rparr> - \<lceil>100::real\<rceil> - 500
   \<and> scrollTop (handleSendBegin None (js ''m2'') 0 40
      (handleScroll \<lparr>panelStore = \<lparr>dataSources = [], isConnected = False, queries = [], activeQueryId = None,
           aiMessages = [], isSidebarCollapsed = False, isAIPanelCollapsed = False, aiScrollPosition = 0,
           activeArtifact = None, activeArtifactCode = None\<rparr>,
         input = js ''hi'', isTyping = False, shouldAutoScroll = True,
         scrollTop = 100, scrollHeight = 2000, clientHeight = 500\<rparr>)) \<noteq> 100"
proof -
  have t: "trim (js ''hi'') \<noteq> []" by code_simp
  show ?thesis using t
    by (simp add: handleSendBegin_def handleScroll_def messagesEffect_def scrollIntoViewEnd_def Let_def)
qed

end
